theory Spec2Isabelle
  imports Main "HOL-Library.Word" "HOL-Library.Multiset"
begin

section \<open>The header set of net/http\<close>

text \<open>
  The middleware of \<^verbatim>\<open>middlewares/headers.go\<close> works on values of Go's
  \<^verbatim>\<open>http.Header\<close>, a \<^verbatim>\<open>map[string][]string\<close>. Its methods \<^verbatim>\<open>Get\<close>,
  \<^verbatim>\<open>Set\<close>, \<^verbatim>\<open>Add\<close> and \<^verbatim>\<open>Del\<close> belong to the Go standard library
  (net/http, net/textproto), not to the repository; they are written out here because every
  statement about the middleware goes through them. Each of them first brings the header
  name into its canonical form. The header maps are the non-nil maps that net/http hands to
  a handler.
\<close>

type_synonym Header = "string \<rightharpoonup> string list"

definition validHeaderFieldByte :: "char \<Rightarrow> bool" where
  \<comment> \<open>the token characters of RFC 7230: letters, digits and \<^verbatim>\<open>!#$%&'*+-.^_`|~\<close>\<close>
  "validHeaderFieldByte c =
     (let b = (of_char c :: nat)
      in b \<in> {33, 35, 36, 37, 38, 39, 42, 43, 45, 46, 94, 95, 96, 124, 126}
         \<or> (48 \<le> b \<and> b \<le> 57) \<or> (65 \<le> b \<and> b \<le> 90) \<or> (97 \<le> b \<and> b \<le> 122))"

definition toLower :: nat where
  "toLower = 32"

fun canonicalMIMEHeaderKey :: "bool \<Rightarrow> string \<Rightarrow> string" where
  \<comment> \<open>upper case for the first letter and for a letter after a dash, lower case elsewhere;
      the flag is the loop variable \<^verbatim>\<open>upper\<close>\<close>
  "canonicalMIMEHeaderKey upper [] = []"
| "canonicalMIMEHeaderKey upper (c # a) =
     (let b = (of_char c :: nat);
          c' = (if upper \<and> 97 \<le> b \<and> b \<le> 122 then char_of (b - toLower)
                else if \<not> upper \<and> 65 \<le> b \<and> b \<le> 90 then char_of (b + toLower)
                else c)
      in c' # canonicalMIMEHeaderKey (c' = CHR ''-'') a)"

definition CanonicalMIMEHeaderKey :: "string \<Rightarrow> string" where
  \<comment> \<open>a name with a byte that is no token character is returned as it is\<close>
  "CanonicalMIMEHeaderKey s =
     (if list_all validHeaderFieldByte s then canonicalMIMEHeaderKey True s else s)"

definition Get :: "Header \<Rightarrow> string \<Rightarrow> string" where
  "Get h key =
     (case h (CanonicalMIMEHeaderKey key) of
        None \<Rightarrow> ''''
      | Some [] \<Rightarrow> ''''
      | Some (v # _) \<Rightarrow> v)"

definition Set :: "Header \<Rightarrow> string \<Rightarrow> string \<Rightarrow> Header" where
  "Set h key v = h(CanonicalMIMEHeaderKey key \<mapsto> [v])"

definition Add :: "Header \<Rightarrow> string \<Rightarrow> string \<Rightarrow> Header" where
  \<comment> \<open>\<^verbatim>\<open>h[key] = append(h[key], value)\<close>: a missing entry reads as the empty slice\<close>
  "Add h key v =
     (let k = CanonicalMIMEHeaderKey key
      in h(k \<mapsto> (case h k of None \<Rightarrow> [] | Some vs \<Rightarrow> vs) @ [v]))"

definition Del :: "Header \<Rightarrow> string \<Rightarrow> Header" where
  "Del h key = h(CanonicalMIMEHeaderKey key := None)"

section \<open>Library functions on strings and integers\<close>

fun Join :: "string list \<Rightarrow> string \<Rightarrow> string" where
  \<comment> \<open>\<^verbatim>\<open>strings.Join\<close>\<close>
  "Join [] sep = ''''"
| "Join [a] sep = a"
| "Join (a # b # elems) sep = a @ sep @ Join (b # elems) sep"

fun formatBits :: "nat \<Rightarrow> string" where
  \<comment> \<open>the decimal digits of a natural number, most significant first\<close>
  "formatBits n =
     (if n < 10 then [char_of (48 + n)]
      else formatBits (n div 10) @ [char_of (48 + n mod 10)])"

declare formatBits.simps [simp del]

definition Itoa :: "int \<Rightarrow> string" where
  \<comment> \<open>\<^verbatim>\<open>strconv.Itoa\<close>: base 10, a leading minus sign for a negative number\<close>
  "Itoa i = (if i < 0 then CHR ''-'' # formatBits (nat (- i)) else formatBits (nat i))"

type_synonym int64 = "64 word"

definition IntSize :: nat where
  \<comment> \<open>\<^verbatim>\<open>strconv.IntSize\<close>, the number of bits of Go's \<^verbatim>\<open>int\<close>. It is 64 on the
      64-bit platforms, which are the ones modelled here.\<close>
  "IntSize = 64"

definition int_of_int64 :: "int64 \<Rightarrow> int" where
  \<comment> \<open>the conversion \<^verbatim>\<open>int(x)\<close> of an \<^verbatim>\<open>int64\<close>: the low \<^verbatim>\<open>IntSize\<close> bits, read
      as a signed number\<close>
  "int_of_int64 x = signed_take_bit (IntSize - 1) (sint x)"

section \<open>The data of the middleware\<close>

text \<open>
  A configured header mapping is a Go \<^verbatim>\<open>map[string]string\<close> that the code only ever
  walks with \<^verbatim>\<open>range\<close>. It is modelled by the list of its entries in the order in
  which \<^verbatim>\<open>range\<close> yields them. Go leaves that order open and may change it from one
  loop to the next, so a statement about a loop is proved for every order of the entries.
  The names of a map are pairwise distinct as strings.
\<close>

type_synonym header_map = "(string \<times> string) list"

record HeaderOptions =
  CustomRequestHeaders :: header_map
  CustomResponseHeaders :: header_map
  AccessControlAllowCredentials :: bool
  AccessControlAllowHeaders :: "string list"
  AccessControlAllowMethods :: "string list"
  AccessControlAllowOrigin :: string
  AccessControlExposeHeaders :: "string list"
  AccessControlMaxAge :: int64

text \<open>
  \<^verbatim>\<open>types.Headers\<close> is declared outside the files at hand. The constructor reads
  eight of its fields, which carry the names of the fields of \<^verbatim>\<open>HeaderOptions\<close>;
  whatever else the struct holds is the extension \<open>'a\<close> of the record.
\<close>

type_synonym 'a types_Headers = "'a HeaderOptions_scheme"

record HeaderStruct =
  opt :: HeaderOptions
  originHeader :: string

datatype error = Errorf (Error: string)

text \<open>
  Of \<^verbatim>\<open>http.Request\<close> and \<^verbatim>\<open>http.Response\<close> the middleware touches the header
  set, and of the request also the method. An \<^verbatim>\<open>http.ResponseWriter\<close> is used through
  \<^verbatim>\<open>w.Header()\<close> only and is modelled by that header set.
\<close>

record message =
  Header :: Header

record Request = message +
  Method :: string

type_synonym Response = message

definition MethodOptions :: string where
  "MethodOptions = ''OPTIONS''"

text \<open>
  What a call of \<^verbatim>\<open>ServeHTTP\<close> does besides changing headers: a line for the debug log,
  and the call of the continuation with the writer and the request it is given.
  The handler itself stays opaque (the type \<open>'h\<close>).
\<close>

datatype 'h event = Debugf string | Next 'h Header Request

datatype branch = Preflight | NonPreflight

record 'h served =
  receiver :: HeaderStruct  \<comment> \<open>\<^verbatim>\<open>*s\<close> after the call\<close>
  writer :: Header  \<comment> \<open>\<^verbatim>\<open>w.Header()\<close> after the call\<close>
  request :: Request  \<comment> \<open>\<^verbatim>\<open>*r\<close> after the call\<close>
  taken :: branch  \<comment> \<open>which arm of the conditional ran\<close>
  effects :: "'h event list"

section \<open>The functions of headers.go\<close>

definition NewHeaderFromStruct ::
  "('a types_Headers \<Rightarrow> bool) \<Rightarrow> ('a types_Headers \<Rightarrow> bool) \<Rightarrow>
   'a types_Headers option \<Rightarrow> HeaderStruct option" where
  \<comment> \<open>The methods \<^verbatim>\<open>HasCustomHeadersDefined\<close> and \<^verbatim>\<open>HasCorsHeadersDefined\<close> of
      \<^verbatim>\<open>types.Headers\<close> are parameters. \<open>None\<close> is the nil pointer; the field
      \<^verbatim>\<open>originHeader\<close> starts as the empty string.\<close>
  "NewHeaderFromStruct HasCustomHeadersDefined HasCorsHeadersDefined headers =
     (case headers of
        None \<Rightarrow> None
      | Some h \<Rightarrow>
          if \<not> HasCustomHeadersDefined h \<and> \<not> HasCorsHeadersDefined h then None
          else Some \<lparr>opt = \<lparr>CustomRequestHeaders = CustomRequestHeaders h,
                              CustomResponseHeaders = CustomResponseHeaders h,
                              AccessControlAllowCredentials = AccessControlAllowCredentials h,
                              AccessControlAllowHeaders = AccessControlAllowHeaders h,
                              AccessControlAllowMethods = AccessControlAllowMethods h,
                              AccessControlAllowOrigin = AccessControlAllowOrigin h,
                              AccessControlExposeHeaders = AccessControlExposeHeaders h,
                              AccessControlMaxAge = AccessControlMaxAge h\<rparr>,
                      originHeader = ''''\<rparr>)"

definition getAllowOrigin :: "HeaderStruct \<Rightarrow> string \<times> error option" where
  "getAllowOrigin s =
     (if AccessControlAllowOrigin (opt s) = ''origin-list-or-null'' then
        (if originHeader s = '''' then (''null'', None) else (originHeader s, None))
      else if AccessControlAllowOrigin (opt s) = ''*'' then (''*'', None)
      else ('''', Some (Errorf (''invalid Access-Control-Allow-Origin setting: ''
                                  @ AccessControlAllowOrigin (opt s)))))"

definition applyHeaders :: "header_map \<Rightarrow> Header \<Rightarrow> Header" where
  \<comment> \<open>the loop that \<^verbatim>\<open>ModifyRequestHeaders\<close> and \<^verbatim>\<open>ModifyResponseHeaders\<close> both
      run over their mapping\<close>
  "applyHeaders m h =
     fold (\<lambda>(header, val) h. if val = '''' then Del h header else Set h header val) m h"

definition ModifyRequestHeaders :: "HeaderStruct \<Rightarrow> Request \<Rightarrow> Request" where
  "ModifyRequestHeaders s r =
     r\<lparr>Header := applyHeaders (CustomRequestHeaders (opt s)) (Header r)\<rparr>"

definition ModifyResponseHeaders :: "HeaderStruct \<Rightarrow> Response \<Rightarrow> Response \<times> error option" where
  \<comment> \<open>the response is changed in place: it is returned next to the error\<close>
  "ModifyResponseHeaders s res =
     (let res = res\<lparr>Header := applyHeaders (CustomResponseHeaders (opt s)) (Header res)\<rparr>;
          (allowOrigin, err) = getAllowOrigin s
      in case err of
           Some e \<Rightarrow> (res, Some e)
         | None \<Rightarrow>
             let res = (if allowOrigin \<noteq> ''''
                        then res\<lparr>Header := Set (Header res) ''Access-Control-Allow-Origin'' allowOrigin\<rparr>
                        else res);
                 res = (if AccessControlAllowCredentials (opt s)
                        then res\<lparr>Header := Set (Header res) ''Access-Control-Allow-Credentials'' ''true''\<rparr>
                        else res);
                 exposeHeaders = Join (AccessControlExposeHeaders (opt s)) '','';
                 res = (if exposeHeaders \<noteq> ''''
                        then res\<lparr>Header := Set (Header res) ''Access-Control-Expose-Headers'' exposeHeaders\<rparr>
                        else res)
             in (res, None))"

definition ServeHTTP :: "HeaderStruct \<Rightarrow> Header \<Rightarrow> Request \<Rightarrow> 'h option \<Rightarrow> 'h served" where
  "ServeHTTP s w r nxt =
     (let reqAcMethod = Get (Header r) ''Access-Control-Request-Method'';
          reqAcHeaders = Get (Header r) ''Access-Control-Request-Headers'';
          s = s\<lparr>originHeader := Get (Header r) ''Origin''\<rparr>
      in if reqAcMethod \<noteq> '''' \<and> reqAcHeaders \<noteq> '''' \<and> originHeader s \<noteq> ''''
            \<and> Method r = MethodOptions
         then
           let w = (if AccessControlAllowCredentials (opt s)
                    then Add w ''Access-Control-Allow-Credentials'' ''true'' else w);
               allowHeaders = Join (AccessControlAllowHeaders (opt s)) '','';
               w = (if allowHeaders \<noteq> ''''
                    then Add w ''Access-Control-Allow-Headers'' allowHeaders else w);
               allowMethods = Join (AccessControlAllowMethods (opt s)) '','';
               w = (if allowMethods \<noteq> ''''
                    then Add w ''Access-Control-Allow-Methods'' allowMethods else w);
               (allowOrigin, err) = getAllowOrigin s;
               logged = (case err of
                           None \<Rightarrow> []
                         | Some e \<Rightarrow>
                             [Debugf (''Preflight error with Access-Control-Allow-Origin: ''
                                      @ Error e)]);
               w = (if allowOrigin \<noteq> ''''
                    then Add w ''Access-Control-Allow-Origin'' allowOrigin else w);
               w = Add w ''Access-Control-Max-Age''
                     (Itoa (int_of_int64 (AccessControlMaxAge (opt s))))
           in \<lparr>receiver = s, writer = w, request = r, taken = Preflight, effects = logged\<rparr>
         else
           let r = ModifyRequestHeaders s r
           in \<lparr>receiver = s, writer = w, request = r, taken = NonPreflight,
               effects = (case nxt of None \<Rightarrow> [] | Some handler \<Rightarrow> [Next handler w r])\<rparr>)"

section \<open>Sample configurations and requests\<close>

definition sampleOptions :: HeaderOptions where
  \<comment> \<open>CORS with any origin allowed and a cache time of ten minutes, no custom headers\<close>
  "sampleOptions =
     \<lparr>CustomRequestHeaders = [], CustomResponseHeaders = [],
      AccessControlAllowCredentials = False, AccessControlAllowHeaders = [],
      AccessControlAllowMethods = [], AccessControlAllowOrigin = ''*'',
      AccessControlExposeHeaders = [], AccessControlMaxAge = 600\<rparr>"

definition degradedOptions :: HeaderOptions where
  \<comment> \<open>a configuration whose \<^verbatim>\<open>AccessControlAllowOrigin\<close> is none of the two legal values\<close>
  "degradedOptions =
     \<lparr>CustomRequestHeaders = [],
      CustomResponseHeaders = [(''X-Custom-Response-Header'', ''test_response''), (''Server'', '''')],
      AccessControlAllowCredentials = True, AccessControlAllowHeaders = [],
      AccessControlAllowMethods = [''GET'', ''PUT''], AccessControlAllowOrigin = ''bogus'',
      AccessControlExposeHeaders = [''X-Foo''], AccessControlMaxAge = 0\<rparr>"

definition preflightRequest :: Request where
  "preflightRequest =
     \<lparr>Header = [''Access-Control-Request-Method'' \<mapsto> [''GET''],
                 ''Access-Control-Request-Headers'' \<mapsto> [''X-Foo''],
                 ''Origin'' \<mapsto> [''https://a.test'']],
      Method = ''OPTIONS''\<rparr>"

definition plainRequest :: Request where
  "plainRequest = \<lparr>Header = [''Accept'' \<mapsto> [''text/html'']], Method = ''GET''\<rparr>"

definition requestFrom :: "string \<Rightarrow> Request" where
  \<comment> \<open>a GET request of the given origin\<close>
  "requestFrom origin = \<lparr>Header = [''Origin'' \<mapsto> [origin]], Method = ''GET''\<rparr>"

definition sampleHeaders :: header_map where
  "sampleHeaders = [(''X-Custom-Request-Header'', ''test_request''), (''Cookie'', '''')]"

definition collidingHeaders :: header_map where
  \<comment> \<open>two different names of a Go map that are one header name in canonical form\<close>
  "collidingHeaders = [(''x-foo'', ''a''), (''X-Foo'', ''b'')]"

section \<open>Canonical names and decimal strings of the samples\<close>

lemma canonical_names [simp]:
  "CanonicalMIMEHeaderKey ''Access-Control-Request-Method'' = ''Access-Control-Request-Method''"
  "CanonicalMIMEHeaderKey ''Access-Control-Request-Headers'' = ''Access-Control-Request-Headers''"
  "CanonicalMIMEHeaderKey ''Origin'' = ''Origin''"
  "CanonicalMIMEHeaderKey ''Access-Control-Allow-Credentials'' = ''Access-Control-Allow-Credentials''"
  "CanonicalMIMEHeaderKey ''Access-Control-Allow-Headers'' = ''Access-Control-Allow-Headers''"
  "CanonicalMIMEHeaderKey ''Access-Control-Allow-Methods'' = ''Access-Control-Allow-Methods''"
  "CanonicalMIMEHeaderKey ''Access-Control-Allow-Origin'' = ''Access-Control-Allow-Origin''"
  "CanonicalMIMEHeaderKey ''Access-Control-Max-Age'' = ''Access-Control-Max-Age''"
  "CanonicalMIMEHeaderKey ''Access-Control-Expose-Headers'' = ''Access-Control-Expose-Headers''"
  by code_simp+

lemma canonical_samples:
  "CanonicalMIMEHeaderKey ''X-Custom-Response-Header'' = ''X-Custom-Response-Header''"
  "CanonicalMIMEHeaderKey ''X-Custom-Request-Header'' = ''X-Custom-Request-Header''"
  "CanonicalMIMEHeaderKey ''Server'' = ''Server''"
  "CanonicalMIMEHeaderKey ''Cookie'' = ''Cookie''"
  "CanonicalMIMEHeaderKey ''x-foo'' = ''X-Foo''"
  "CanonicalMIMEHeaderKey ''X-Foo'' = ''X-Foo''"
  by code_simp+

lemma int_of_int64_sint: "int_of_int64 x = sint x"
proof -
  have "- (2 ^ 63) \<le> sint x" and "sint x < 2 ^ 63"
    using sint_ge [of x] sint_lt [of x] by simp_all
  then show ?thesis
    by (simp add: int_of_int64_def IntSize_def signed_take_bit_int_eq_self)
qed

lemma Itoa_samples:
  "Itoa 0 = ''0''"
  "Itoa (sint (600 :: int64)) = ''600''"
  by code_simp+

section \<open>The loop over a header mapping\<close>

lemma applyHeaders_snoc:
  "applyHeaders (m @ [(n, v)]) h =
     (if v = '''' then Del (applyHeaders m h) n else Set (applyHeaders m h) n v)"
  by (simp add: applyHeaders_def)

text \<open>
  What the loop leaves under a key: the entry that came last among those whose name has
  this canonical form decides, and a key that no entry names keeps what it had.
\<close>

lemma applyHeaders_lookup:
  "applyHeaders m h k =
     (case map_of (rev (map (\<lambda>(n, v). (CanonicalMIMEHeaderKey n, v)) m)) k of
        None \<Rightarrow> h k
      | Some v \<Rightarrow> if v = '''' then None else Some [v])"
proof (induction m rule: rev_induct)
  case Nil
  show ?case by (simp add: applyHeaders_def)
next
  case (snoc x m)
  obtain n v where x: "x = (n, v)" by (cases x)
  show ?case
    unfolding x applyHeaders_snoc using snoc
    by (simp add: Del_def Set_def)
qed

lemma canonical_entries_fst:
  "map fst (map (\<lambda>(n, v). (CanonicalMIMEHeaderKey n, v)) m) = map (CanonicalMIMEHeaderKey \<circ> fst) m"
  by (induction m) auto

lemma applyHeaders_untouched:
  assumes "k \<notin> CanonicalMIMEHeaderKey ` fst ` set m"
  shows "applyHeaders m h k = h k"
proof -
  from assms have "k \<notin> fst ` set (rev (map (\<lambda>(n, v). (CanonicalMIMEHeaderKey n, v)) m))"
    by (force simp add: image_iff)
  then have "map_of (rev (map (\<lambda>(n, v). (CanonicalMIMEHeaderKey n, v)) m)) k = None"
    by (simp add: map_of_eq_None_iff)
  then show ?thesis by (simp add: applyHeaders_lookup)
qed


lemma applyHeaders_permute:
  assumes "distinct (map (CanonicalMIMEHeaderKey \<circ> fst) m)" and "mset m' = mset m"
  shows "applyHeaders m' h = applyHeaders m h"
proof -
  let ?c = "\<lambda>(n, v). (CanonicalMIMEHeaderKey n, v :: string)"
  have "mset (map (CanonicalMIMEHeaderKey \<circ> fst) m') = mset (map (CanonicalMIMEHeaderKey \<circ> fst) m)"
    using assms(2) by (metis mset_map)
  then have d': "distinct (map (CanonicalMIMEHeaderKey \<circ> fst) m')"
    using assms(1) by (metis mset_eq_imp_distinct_iff)
  have "set m' = set m"
    using assms(2) by (metis mset_eq_setD)
  then have "set (rev (map ?c m')) = set (rev (map ?c m))"
    by simp
  moreover have "distinct (map fst (rev (map ?c m')))" "distinct (map fst (rev (map ?c m)))"
    using d' assms(1) by (simp_all add: rev_map [symmetric] canonical_entries_fst del: map_map)
  ultimately have "map_of (rev (map ?c m')) = map_of (rev (map ?c m))"
    by (simp only: map_of_inject_set)
  then show ?thesis
    by (intro ext) (simp add: applyHeaders_lookup)
qed

lemma applyHeaders_entry:
  assumes "distinct (map (CanonicalMIMEHeaderKey \<circ> fst) m)" and "(n, v) \<in> set m"
  shows "applyHeaders m h (CanonicalMIMEHeaderKey n) = (if v = '''' then None else Some [v])"
proof -
  let ?c = "\<lambda>(n, v). (CanonicalMIMEHeaderKey n, v :: string)"
  have "distinct (map fst (rev (map ?c m)))"
    using assms(1) by (simp add: rev_map [symmetric] canonical_entries_fst del: map_map)
  moreover have "(CanonicalMIMEHeaderKey n, v) \<in> set (rev (map ?c m))"
    using assms(2) by force
  ultimately have "map_of (rev (map ?c m)) (CanonicalMIMEHeaderKey n) = Some v"
    by (rule map_of_is_SomeI)
  then show ?thesis by (simp add: applyHeaders_lookup)
qed

section \<open>Which branch of ServeHTTP runs\<close>

text \<open>
  Claim C1. For every request, \<^verbatim>\<open>ServeHTTP\<close> takes its preflight branch if and only
  if the method is exactly \<^verbatim>\<open>OPTIONS\<close> and the headers
  \<^verbatim>\<open>Access-Control-Request-Method\<close>, \<^verbatim>\<open>Access-Control-Request-Headers\<close> and
  \<^verbatim>\<open>Origin\<close> all read as a non-empty string; in every other case it takes the
  other branch.
\<close>

theorem ServeHTTP_branch:
  "(taken (ServeHTTP s w r nxt) = Preflight \<longleftrightarrow>
      Method r = ''OPTIONS''
      \<and> Get (Header r) ''Access-Control-Request-Method'' \<noteq> ''''
      \<and> Get (Header r) ''Access-Control-Request-Headers'' \<noteq> ''''
      \<and> Get (Header r) ''Origin'' \<noteq> '''')
   \<and> (taken (ServeHTTP s w r nxt) = NonPreflight \<longleftrightarrow>
      \<not> (Method r = ''OPTIONS''
          \<and> Get (Header r) ''Access-Control-Request-Method'' \<noteq> ''''
          \<and> Get (Header r) ''Access-Control-Request-Headers'' \<noteq> ''''
          \<and> Get (Header r) ''Origin'' \<noteq> ''''))"
  by (auto simp add: ServeHTTP_def Let_def MethodOptions_def split: prod.splits)

text \<open>
  Claim C2. In the preflight branch the continuation is never called. In the other branch
  the request handed on is the request after \<^verbatim>\<open>ModifyRequestHeaders\<close>, the writer is
  passed as it came, and the continuation is called once with both when it is not nil;
  when it is nil nothing else happens.
\<close>

theorem ServeHTTP_next:
  "(taken (ServeHTTP s w r nxt) = Preflight \<longrightarrow>
      (\<forall>handler w' r'. Next handler w' r' \<notin> set (effects (ServeHTTP s w r nxt))))
   \<and> (taken (ServeHTTP s w r nxt) = NonPreflight \<longrightarrow>
        request (ServeHTTP s w r nxt) = ModifyRequestHeaders s r
        \<and> writer (ServeHTTP s w r nxt) = w
        \<and> effects (ServeHTTP s w r nxt) =
            (case nxt of
               None \<Rightarrow> []
             | Some handler \<Rightarrow> [Next handler w (ModifyRequestHeaders s r)]))"
  by (auto simp add: ServeHTTP_def Let_def ModifyRequestHeaders_def
      split: prod.splits option.splits)

theorem ServeHTTP_next_witness:
  "taken (ServeHTTP \<lparr>opt = sampleOptions, originHeader = ''''\<rparr> Map.empty preflightRequest (Some ()))
     = Preflight
   \<and> (\<forall>handler w' r'. Next handler w' r' \<notin>
         set (effects (ServeHTTP \<lparr>opt = sampleOptions, originHeader = ''''\<rparr> Map.empty
                preflightRequest (Some ()))))
   \<and> taken (ServeHTTP \<lparr>opt = sampleOptions, originHeader = ''''\<rparr> Map.empty plainRequest (Some ()))
     = NonPreflight
   \<and> effects (ServeHTTP \<lparr>opt = sampleOptions, originHeader = ''''\<rparr> Map.empty plainRequest (Some ()))
     = [Next () Map.empty plainRequest]
   \<and> effects (ServeHTTP \<lparr>opt = sampleOptions, originHeader = ''''\<rparr> Map.empty plainRequest
        (None :: unit option))
     = []"
proof -
  let ?s = "\<lparr>opt = sampleOptions, originHeader = ''''\<rparr>"
  have pre: "taken (ServeHTTP ?s Map.empty preflightRequest (Some ())) = Preflight"
    by (simp add: ServeHTTP_def Let_def MethodOptions_def preflightRequest_def Get_def
        split: prod.splits)
  have non: "taken (ServeHTTP ?s Map.empty plainRequest nxt) = NonPreflight" for nxt :: "unit option"
    by (simp add: ServeHTTP_def Let_def MethodOptions_def plainRequest_def Get_def)
  have same: "ModifyRequestHeaders ?s plainRequest = plainRequest"
    by (simp add: ModifyRequestHeaders_def applyHeaders_def sampleOptions_def)
  show ?thesis
    using pre non same
      ServeHTTP_next [of ?s Map.empty preflightRequest "Some ()"]
      ServeHTTP_next [of ?s Map.empty plainRequest "Some ()"]
      ServeHTTP_next [of ?s Map.empty plainRequest "None :: unit option"]
    by simp
qed

section \<open>Resolving the allowed origin\<close>

text \<open>
  Claim C3. \<^verbatim>\<open>getAllowOrigin\<close> depends on the configured \<^verbatim>\<open>AccessControlAllowOrigin\<close>
  and on the captured origin only. With \<^verbatim>\<open>origin-list-or-null\<close> it returns
  \<^verbatim>\<open>null\<close> for an empty origin and the origin itself otherwise; with \<^verbatim>\<open>*\<close> it
  returns \<^verbatim>\<open>*\<close> whatever the origin; with any other setting it returns an error
  whose message carries the setting, whatever the origin.
\<close>

theorem getAllowOrigin_cases:
  assumes "AccessControlAllowOrigin (opt s) = cfg" and "originHeader s = origin"
  shows "(cfg = ''origin-list-or-null'' \<and> origin = '''' \<longrightarrow> getAllowOrigin s = (''null'', None))
       \<and> (cfg = ''origin-list-or-null'' \<and> origin \<noteq> '''' \<longrightarrow> getAllowOrigin s = (origin, None))
       \<and> (cfg = ''*'' \<longrightarrow> getAllowOrigin s = (''*'', None))
       \<and> (cfg \<noteq> ''origin-list-or-null'' \<and> cfg \<noteq> ''*'' \<longrightarrow>
            getAllowOrigin s =
              ('''', Some (Errorf (''invalid Access-Control-Allow-Origin setting: '' @ cfg))))"
  using assms by (simp add: getAllowOrigin_def)

theorem getAllowOrigin_cases_witness:
  "getAllowOrigin \<lparr>opt = sampleOptions\<lparr>AccessControlAllowOrigin := ''origin-list-or-null''\<rparr>,
                   originHeader = ''''\<rparr> = (''null'', None)
   \<and> getAllowOrigin \<lparr>opt = sampleOptions\<lparr>AccessControlAllowOrigin := ''origin-list-or-null''\<rparr>,
                     originHeader = ''https://a.test''\<rparr> = (''https://a.test'', None)
   \<and> getAllowOrigin \<lparr>opt = sampleOptions, originHeader = ''''\<rparr> = (''*'', None)
   \<and> getAllowOrigin \<lparr>opt = sampleOptions\<lparr>AccessControlAllowOrigin := ''bogus''\<rparr>,
                     originHeader = ''https://a.test''\<rparr>
       = ('''', Some (Errorf ''invalid Access-Control-Allow-Origin setting: bogus''))"
  using
    getAllowOrigin_cases
      [of "\<lparr>opt = sampleOptions\<lparr>AccessControlAllowOrigin := ''origin-list-or-null''\<rparr>,
            originHeader = ''''\<rparr>" "''origin-list-or-null''" "''''"]
    getAllowOrigin_cases
      [of "\<lparr>opt = sampleOptions\<lparr>AccessControlAllowOrigin := ''origin-list-or-null''\<rparr>,
            originHeader = ''https://a.test''\<rparr>" "''origin-list-or-null''" "''https://a.test''"]
    getAllowOrigin_cases [of "\<lparr>opt = sampleOptions, originHeader = ''''\<rparr>" "''*''" "''''"]
    getAllowOrigin_cases
      [of "\<lparr>opt = sampleOptions\<lparr>AccessControlAllowOrigin := ''bogus''\<rparr>,
            originHeader = ''https://a.test''\<rparr>" "''bogus''" "''https://a.test''"]
  by (simp add: sampleOptions_def)

section \<open>The preflight response when the origin cannot be resolved\<close>

text \<open>
  Claim C4. Every preflight response gets one more \<^verbatim>\<open>Access-Control-Max-Age\<close> value,
  the decimal string of \<^verbatim>\<open>AccessControlMaxAge\<close>, whatever that number is and whether
  or not the origin could be resolved. When the configured \<^verbatim>\<open>AccessControlAllowOrigin\<close>
  is neither \<^verbatim>\<open>origin-list-or-null\<close> nor \<^verbatim>\<open>*\<close>, the error goes to the debug log
  and nowhere else, the writer holds the headers that were added before
  (\<^verbatim>\<open>Access-Control-Allow-Credentials\<close>, \<^verbatim>\<open>Access-Control-Allow-Headers\<close>,
  \<^verbatim>\<open>Access-Control-Allow-Methods\<close>, each under its condition) and the maximal age,
  and \<^verbatim>\<open>Access-Control-Allow-Origin\<close> is as it was before the call.
\<close>

theorem ServeHTTP_preflight_degraded:
  assumes "taken (ServeHTTP s w r nxt) = Preflight"
  shows "writer (ServeHTTP s w r nxt) ''Access-Control-Max-Age''
           = Some ((case w ''Access-Control-Max-Age'' of None \<Rightarrow> [] | Some vs \<Rightarrow> vs)
                   @ [Itoa (sint (AccessControlMaxAge (opt s)))])
       \<and> (AccessControlAllowOrigin (opt s) \<noteq> ''origin-list-or-null''
            \<and> AccessControlAllowOrigin (opt s) \<noteq> ''*'' \<longrightarrow>
          (let w1 = (if AccessControlAllowCredentials (opt s)
                     then Add w ''Access-Control-Allow-Credentials'' ''true'' else w);
               w2 = (if Join (AccessControlAllowHeaders (opt s)) '','' \<noteq> ''''
                     then Add w1 ''Access-Control-Allow-Headers''
                            (Join (AccessControlAllowHeaders (opt s)) '','')
                     else w1);
               w3 = (if Join (AccessControlAllowMethods (opt s)) '','' \<noteq> ''''
                     then Add w2 ''Access-Control-Allow-Methods''
                            (Join (AccessControlAllowMethods (opt s)) '','')
                     else w2)
           in writer (ServeHTTP s w r nxt)
                = Add w3 ''Access-Control-Max-Age'' (Itoa (sint (AccessControlMaxAge (opt s)))))
          \<and> writer (ServeHTTP s w r nxt) ''Access-Control-Allow-Origin''
              = w ''Access-Control-Allow-Origin''
          \<and> effects (ServeHTTP s w r nxt)
              = [Debugf (''Preflight error with Access-Control-Allow-Origin: ''
                         @ ''invalid Access-Control-Allow-Origin setting: ''
                         @ AccessControlAllowOrigin (opt s))])"
  using assms
  by (simp add: ServeHTTP_def getAllowOrigin_def Add_def Let_def int_of_int64_sint
      split: if_splits)

theorem ServeHTTP_preflight_degraded_witness:
  "taken (ServeHTTP \<lparr>opt = degradedOptions, originHeader = ''''\<rparr> Map.empty preflightRequest
            (None :: unit option)) = Preflight
   \<and> writer (ServeHTTP \<lparr>opt = degradedOptions, originHeader = ''''\<rparr> Map.empty preflightRequest
               (None :: unit option))
       = [''Access-Control-Allow-Credentials'' \<mapsto> [''true''],
          ''Access-Control-Allow-Methods'' \<mapsto> [''GET,PUT''],
          ''Access-Control-Max-Age'' \<mapsto> [''0'']]
   \<and> effects (ServeHTTP \<lparr>opt = degradedOptions, originHeader = ''''\<rparr> Map.empty preflightRequest
                (None :: unit option))
       = [Debugf ''Preflight error with Access-Control-Allow-Origin: invalid Access-Control-Allow-Origin setting: bogus'']"
proof -
  let ?s = "\<lparr>opt = degradedOptions, originHeader = ''''\<rparr>"
  have pre: "taken (ServeHTTP ?s Map.empty preflightRequest (None :: unit option)) = Preflight"
    by (simp add: ServeHTTP_def Let_def MethodOptions_def preflightRequest_def Get_def
        split: prod.splits)
  show ?thesis
    using pre ServeHTTP_preflight_degraded [OF pre]
    by (simp add: degradedOptions_def Add_def Itoa_samples)
qed

section \<open>The response headers\<close>

text \<open>
  Against claim C5 as it is worded. A list of exposed headers that is not empty can still
  join to the empty string: the list whose one element is the empty string does. The call
  succeeds, and no \<^verbatim>\<open>Access-Control-Expose-Headers\<close> is set.
\<close>

theorem ModifyResponseHeaders_expose_counterexample:
  "AccessControlExposeHeaders (sampleOptions\<lparr>AccessControlExposeHeaders := ['''']\<rparr>) \<noteq> []
   \<and> snd (ModifyResponseHeaders
            \<lparr>opt = sampleOptions\<lparr>AccessControlExposeHeaders := ['''']\<rparr>, originHeader = ''''\<rparr>
            \<lparr>Header = Map.empty\<rparr>) = None
   \<and> Header (fst (ModifyResponseHeaders
            \<lparr>opt = sampleOptions\<lparr>AccessControlExposeHeaders := ['''']\<rparr>, originHeader = ''''\<rparr>
            \<lparr>Header = Map.empty\<rparr>)) ''Access-Control-Expose-Headers'' = None"
  by (simp add: ModifyResponseHeaders_def getAllowOrigin_def Let_def sampleOptions_def
      applyHeaders_def Set_def)

text \<open>
  Claim C5, amended. \<^verbatim>\<open>ModifyResponseHeaders\<close> returns an error if and only if the
  configured \<^verbatim>\<open>AccessControlAllowOrigin\<close> is neither \<^verbatim>\<open>origin-list-or-null\<close>
  nor \<^verbatim>\<open>*\<close>. When it succeeds, \<^verbatim>\<open>Access-Control-Allow-Origin\<close> holds the resolved
  origin as its only value; \<^verbatim>\<open>Access-Control-Allow-Credentials\<close> holds \<^verbatim>\<open>true\<close> as
  its only value when credentials are allowed and is what the custom headers left
  otherwise; \<^verbatim>\<open>Access-Control-Expose-Headers\<close> holds the comma-joined list as its only
  value when that joined string is not empty and is what the custom headers left otherwise;
  every other header is what the custom headers left.
\<close>

theorem ModifyResponseHeaders_result:
  "(snd (ModifyResponseHeaders s res) \<noteq> None \<longleftrightarrow>
      AccessControlAllowOrigin (opt s) \<noteq> ''origin-list-or-null''
      \<and> AccessControlAllowOrigin (opt s) \<noteq> ''*'')
   \<and> (snd (ModifyResponseHeaders s res) = None \<longrightarrow>
        (let h0 = applyHeaders (CustomResponseHeaders (opt s)) (Header res);
             h = Header (fst (ModifyResponseHeaders s res));
             exposeHeaders = Join (AccessControlExposeHeaders (opt s)) '',''
         in h ''Access-Control-Allow-Origin'' = Some [fst (getAllowOrigin s)]
            \<and> h ''Access-Control-Allow-Credentials''
                = (if AccessControlAllowCredentials (opt s) then Some [''true'']
                   else h0 ''Access-Control-Allow-Credentials'')
            \<and> h ''Access-Control-Expose-Headers''
                = (if exposeHeaders \<noteq> '''' then Some [exposeHeaders]
                   else h0 ''Access-Control-Expose-Headers'')
            \<and> (\<forall>k. k \<noteq> ''Access-Control-Allow-Origin''
                     \<and> k \<noteq> ''Access-Control-Allow-Credentials''
                     \<and> k \<noteq> ''Access-Control-Expose-Headers'' \<longrightarrow> h k = h0 k)))"
  by (simp add: ModifyResponseHeaders_def getAllowOrigin_def Set_def Let_def)

theorem ModifyResponseHeaders_result_witness:
  "snd (ModifyResponseHeaders
          \<lparr>opt = degradedOptions\<lparr>AccessControlAllowOrigin := ''origin-list-or-null''\<rparr>,
           originHeader = ''https://a.test''\<rparr>
          \<lparr>Header = [''Server'' \<mapsto> [''nginx''], ''Access-Control-Allow-Origin'' \<mapsto> [''x'', ''y'']]\<rparr>) = None
   \<and> Header (fst (ModifyResponseHeaders
          \<lparr>opt = degradedOptions\<lparr>AccessControlAllowOrigin := ''origin-list-or-null''\<rparr>,
           originHeader = ''https://a.test''\<rparr>
          \<lparr>Header = [''Server'' \<mapsto> [''nginx''], ''Access-Control-Allow-Origin'' \<mapsto> [''x'', ''y'']]\<rparr>))
        ''Access-Control-Allow-Origin'' = Some [''https://a.test'']
   \<and> Header (fst (ModifyResponseHeaders
          \<lparr>opt = degradedOptions\<lparr>AccessControlAllowOrigin := ''origin-list-or-null''\<rparr>,
           originHeader = ''https://a.test''\<rparr>
          \<lparr>Header = [''Server'' \<mapsto> [''nginx''], ''Access-Control-Allow-Origin'' \<mapsto> [''x'', ''y'']]\<rparr>))
        ''Access-Control-Expose-Headers'' = Some [''X-Foo'']"
proof -
  let ?s = "\<lparr>opt = degradedOptions\<lparr>AccessControlAllowOrigin := ''origin-list-or-null''\<rparr>,
             originHeader = ''https://a.test''\<rparr>"
  let ?res = "\<lparr>Header = [''Server'' \<mapsto> [''nginx''], ''Access-Control-Allow-Origin'' \<mapsto> [''x'', ''y'']]\<rparr>"
  have ok: "snd (ModifyResponseHeaders ?s ?res) = None"
    by (simp add: ModifyResponseHeaders_def getAllowOrigin_def Let_def degradedOptions_def)
  show ?thesis
    using ok ModifyResponseHeaders_result [of ?s ?res]
    by (simp add: Let_def getAllowOrigin_def degradedOptions_def)
qed

section \<open>Header mutation\<close>

text \<open>
  Against claim C6 as it is worded. A Go map may hold the names \<^verbatim>\<open>x-foo\<close> and
  \<^verbatim>\<open>X-Foo\<close> next to each other: they are different strings. Both address the header
  \<^verbatim>\<open>X-Foo\<close>, so the value that the loop leaves there is the one of the entry it
  visits last.
\<close>

theorem applyHeaders_order_counterexample:
  "distinct (map fst collidingHeaders)
   \<and> Get (applyHeaders collidingHeaders Map.empty) ''X-Foo'' = ''b''
   \<and> Get (applyHeaders (rev collidingHeaders) Map.empty) ''X-Foo'' = ''a''"
  by (simp add: collidingHeaders_def applyHeaders_def Set_def Get_def canonical_samples)

text \<open>
  Claim C6, amended. Let no two names of the mapping have the same canonical form. Then
  for every pair of the mapping, the loop leaves the header of that name absent when the
  value is the empty string, and leaves it with the value as its only value otherwise, so
  that reading the name gives the value; a header that the mapping does not name is left
  as it was; and the order in which the pairs are visited makes no difference.
\<close>

theorem applyHeaders_pairs:
  assumes "distinct (map (CanonicalMIMEHeaderKey \<circ> fst) m)"
  shows "(\<forall>(name, v) \<in> set m.
            applyHeaders m h (CanonicalMIMEHeaderKey name) = (if v = '''' then None else Some [v])
            \<and> Get (applyHeaders m h) name = v)
       \<and> (\<forall>k. k \<notin> CanonicalMIMEHeaderKey ` fst ` set m \<longrightarrow> applyHeaders m h k = h k)
       \<and> (\<forall>m'. mset m' = mset m \<longrightarrow> applyHeaders m' h = applyHeaders m h)"
proof (intro conjI allI impI ballI)
  fix x assume x: "x \<in> set m"
  obtain name v where nv: "x = (name, v)" by (cases x)
  from assms x nv
  have e: "applyHeaders m h (CanonicalMIMEHeaderKey name) = (if v = '''' then None else Some [v])"
    by (simp add: applyHeaders_entry)
  then show "case x of (name, v) \<Rightarrow>
          applyHeaders m h (CanonicalMIMEHeaderKey name) = (if v = [] then None else Some [v])
          \<and> Get (applyHeaders m h) name = v"
    by (simp add: nv Get_def)
next
  fix k assume "k \<notin> CanonicalMIMEHeaderKey ` fst ` set m"
  then show "applyHeaders m h k = h k" by (rule applyHeaders_untouched)
next
  fix m' assume "mset m' = mset m"
  with assms show "applyHeaders m' h = applyHeaders m h" by (rule applyHeaders_permute)
qed

theorem applyHeaders_pairs_witness:
  "distinct (map (CanonicalMIMEHeaderKey \<circ> fst) sampleHeaders)
   \<and> applyHeaders sampleHeaders [''Cookie'' \<mapsto> [''a=b''], ''X-Custom-Request-Header'' \<mapsto> [''p'', ''q'']]
       = [''X-Custom-Request-Header'' \<mapsto> [''test_request'']]
   \<and> applyHeaders (rev sampleHeaders) [''Cookie'' \<mapsto> [''a=b''], ''X-Custom-Request-Header'' \<mapsto> [''p'', ''q'']]
       = applyHeaders sampleHeaders [''Cookie'' \<mapsto> [''a=b''], ''X-Custom-Request-Header'' \<mapsto> [''p'', ''q'']]"
proof -
  let ?h = "[''Cookie'' \<mapsto> [''a=b''], ''X-Custom-Request-Header'' \<mapsto> [''p'', ''q'']]"
  have d: "distinct (map (CanonicalMIMEHeaderKey \<circ> fst) sampleHeaders)"
    by (simp add: sampleHeaders_def canonical_samples)
  have p: "mset (rev sampleHeaders) = mset sampleHeaders"
    by simp
  have v: "applyHeaders sampleHeaders ?h = [''X-Custom-Request-Header'' \<mapsto> [''test_request'']]"
    by (auto simp add: sampleHeaders_def applyHeaders_def Set_def Del_def canonical_samples fun_eq_iff)
  from applyHeaders_pairs [OF d, of ?h]
  have "\<forall>m'. mset m' = mset sampleHeaders \<longrightarrow> applyHeaders m' ?h = applyHeaders sampleHeaders ?h"
    by blast
  then have "applyHeaders (rev sampleHeaders) ?h = applyHeaders sampleHeaders ?h"
    using p by blast
  with d v show ?thesis by simp
qed

section \<open>Construction\<close>

text \<open>
  Claim C7. \<^verbatim>\<open>NewHeaderFromStruct\<close> returns nil if and only if it is given nil or a
  configuration that has neither custom headers nor CORS headers defined. Every other
  configuration yields a middleware that holds the eight fields as they were given and an
  empty captured origin: the value of \<^verbatim>\<open>AccessControlAllowOrigin\<close> is not looked at.
\<close>

theorem NewHeaderFromStruct_nil:
  "(NewHeaderFromStruct hasCustom hasCors headers = None \<longleftrightarrow>
      headers = None \<or> (\<exists>h. headers = Some h \<and> \<not> hasCustom h \<and> \<not> hasCors h))
   \<and> (\<forall>h. headers = Some h \<and> (hasCustom h \<or> hasCors h) \<longrightarrow>
        (\<exists>s. NewHeaderFromStruct hasCustom hasCors headers = Some s
             \<and> opt s = HeaderOptions.truncate h \<and> originHeader s = ''''))"
  by (auto simp add: NewHeaderFromStruct_def HeaderOptions.truncate_def split: option.splits)

theorem NewHeaderFromStruct_nil_witness:
  "NewHeaderFromStruct
     (\<lambda>h. CustomRequestHeaders h \<noteq> [] \<or> CustomResponseHeaders h \<noteq> [])
     (\<lambda>h. AccessControlAllowOrigin h \<noteq> '''')
     (Some (sampleOptions\<lparr>AccessControlAllowOrigin := ''bogus''\<rparr>))
   = Some \<lparr>opt = sampleOptions\<lparr>AccessControlAllowOrigin := ''bogus''\<rparr>, originHeader = ''''\<rparr>
   \<and> NewHeaderFromStruct
       (\<lambda>h. CustomRequestHeaders h \<noteq> [] \<or> CustomResponseHeaders h \<noteq> [])
       (\<lambda>h. AccessControlAllowOrigin h \<noteq> '''')
       (Some (sampleOptions\<lparr>AccessControlAllowOrigin := ''''\<rparr>))
     = None"
  using
    NewHeaderFromStruct_nil
      [of "\<lambda>h. CustomRequestHeaders h \<noteq> [] \<or> CustomResponseHeaders h \<noteq> []"
          "\<lambda>h. AccessControlAllowOrigin h \<noteq> ''''"
          "Some (sampleOptions\<lparr>AccessControlAllowOrigin := ''bogus''\<rparr>)"]
    NewHeaderFromStruct_nil
      [of "\<lambda>h. CustomRequestHeaders h \<noteq> [] \<or> CustomResponseHeaders h \<noteq> []"
          "\<lambda>h. AccessControlAllowOrigin h \<noteq> ''''"
          "Some (sampleOptions\<lparr>AccessControlAllowOrigin := ''''\<rparr>)"]
  by (auto simp add: sampleOptions_def HeaderOptions.truncate_def)

section \<open>Running the mutation twice\<close>



section \<open>The captured origin\<close>

text \<open>
  Claim C9 asks that the origin used for a request is the one captured from that request.
  The code keeps the captured origin in the field \<^verbatim>\<open>originHeader\<close> of the middleware,
  which all requests share. Take two requests in flight on one middleware: the first, of
  origin \<^verbatim>\<open>https://a.test\<close>, has passed \<^verbatim>\<open>ServeHTTP\<close> and is with the continuation; the
  second, of origin \<^verbatim>\<open>https://b.test\<close>, passes \<^verbatim>\<open>ServeHTTP\<close>; then the response to the
  first comes back through \<^verbatim>\<open>ModifyResponseHeaders\<close>. With the setting
  \<^verbatim>\<open>origin-list-or-null\<close> that response is given the origin of the second request.
\<close>

theorem originHeader_shared_between_requests:
  "Header (fst (ModifyResponseHeaders
      (receiver (ServeHTTP
         (receiver (ServeHTTP
            \<lparr>opt = sampleOptions\<lparr>AccessControlAllowOrigin := ''origin-list-or-null''\<rparr>,
             originHeader = ''''\<rparr>
            Map.empty (requestFrom ''https://a.test'') (Some ())))
         Map.empty (requestFrom ''https://b.test'') (Some ())))
      \<lparr>Header = Map.empty\<rparr>)) ''Access-Control-Allow-Origin''
   = Some [''https://b.test'']"
  by (simp add: ModifyResponseHeaders_def ServeHTTP_def getAllowOrigin_def Let_def Get_def
      requestFrom_def sampleOptions_def applyHeaders_def Set_def MethodOptions_def)

section \<open>The response after a failed origin resolution\<close>

text \<open>
  Claim C10. Whenever \<^verbatim>\<open>ModifyResponseHeaders\<close> returns the error for an invalid
  \<^verbatim>\<open>AccessControlAllowOrigin\<close>, the response it leaves behind is the response after
  the custom response headers were applied and nothing more: none of the three CORS
  headers was set by the steps that follow, and every header that the custom mapping
  does not name is what it was before the call.
\<close>

theorem ModifyResponseHeaders_not_atomic:
  assumes "AccessControlAllowOrigin (opt s) \<noteq> ''origin-list-or-null''"
      and "AccessControlAllowOrigin (opt s) \<noteq> ''*''"
  shows "ModifyResponseHeaders s res
           = (res\<lparr>Header := applyHeaders (CustomResponseHeaders (opt s)) (Header res)\<rparr>,
              Some (Errorf (''invalid Access-Control-Allow-Origin setting: ''
                            @ AccessControlAllowOrigin (opt s))))
       \<and> (\<forall>k. k \<notin> CanonicalMIMEHeaderKey ` fst ` set (CustomResponseHeaders (opt s)) \<longrightarrow>
              Header (fst (ModifyResponseHeaders s res)) k = Header res k)"
  using assms
  by (simp add: ModifyResponseHeaders_def getAllowOrigin_def Let_def applyHeaders_untouched)

theorem ModifyResponseHeaders_not_atomic_witness:
  "ModifyResponseHeaders \<lparr>opt = degradedOptions, originHeader = ''https://a.test''\<rparr>
     \<lparr>Header = [''Server'' \<mapsto> [''nginx'']]\<rparr>
   = (\<lparr>Header = [''Server'' \<mapsto> [''nginx'']](''X-Custom-Response-Header'' \<mapsto> [''test_response''],
                                                 ''Server'' := None)\<rparr>,
      Some (Errorf ''invalid Access-Control-Allow-Origin setting: bogus''))
   \<and> Header (fst (ModifyResponseHeaders \<lparr>opt = degradedOptions, originHeader = ''https://a.test''\<rparr>
                     \<lparr>Header = [''Server'' \<mapsto> [''nginx'']]\<rparr>)) ''Access-Control-Allow-Origin'' = None
   \<and> Header (fst (ModifyResponseHeaders \<lparr>opt = degradedOptions, originHeader = ''https://a.test''\<rparr>
                     \<lparr>Header = [''Server'' \<mapsto> [''nginx'']]\<rparr>)) ''Access-Control-Allow-Credentials'' = None
   \<and> Header (fst (ModifyResponseHeaders \<lparr>opt = degradedOptions, originHeader = ''https://a.test''\<rparr>
                     \<lparr>Header = [''Server'' \<mapsto> [''nginx'']]\<rparr>)) ''Access-Control-Expose-Headers'' = None"
  using ModifyResponseHeaders_not_atomic
          [of "\<lparr>opt = degradedOptions, originHeader = ''https://a.test''\<rparr>"
              "\<lparr>Header = [''Server'' \<mapsto> [''nginx'']]\<rparr>"]
  by (simp add: degradedOptions_def applyHeaders_def Set_def Del_def canonical_samples)

end
